theory Spec2Isabelle
  imports Complex_Main "HOL-Library.Sublist"
begin

section \<open>Python strings\<close>

text \<open>
  A Python \<open>str\<close> is modelled as a \<open>string\<close> (a list of 8-bit characters), with the
  behaviour of \<open>str.lower\<close>, \<open>str.strip\<close>, \<open>str.split\<close> and of the regular
  expression class \<open>\<backslash>s\<close> on ASCII code points. The catalogues of both modules (patterns,
  clause phrases, keywords, document names, extensions) are ASCII.
\<close>

definition is_space :: "char \<Rightarrow> bool" where
  \<comment> \<open>\<open>str.isspace\<close> on ASCII: TAB, LF, VT, FF, CR, FS, GS, RS, US and the blank.\<close>
  "is_space c = (of_char c \<in> {9, 10, 11, 12, 13, 28, 29, 30, 31, 32 :: nat})"

definition lower_chr :: "char \<Rightarrow> char" where
  "lower_chr c =
     (if 65 \<le> (of_char c :: nat) \<and> (of_char c :: nat) \<le> 90
      then char_of ((of_char c :: nat) + 32) else c)"

definition lower :: "string \<Rightarrow> string" where
  \<comment> \<open>\<open>s.lower()\<close>\<close>
  "lower s = map lower_chr s"

definition strip :: "string \<Rightarrow> string" where
  \<comment> \<open>\<open>s.strip()\<close>: whitespace removed at both ends\<close>
  "strip s = rev (dropWhile is_space (rev (dropWhile is_space s)))"

fun split_from :: "string \<Rightarrow> string \<Rightarrow> string list" where
  \<comment> \<open>the scan of \<open>s.split()\<close>; the first argument is the word read so far\<close>
  "split_from w [] = (if w = [] then [] else [w])"
| "split_from w (c # cs) =
     (if is_space c then (if w = [] then split_from [] cs else w # split_from [] cs)
      else split_from (w @ [c]) cs)"

definition split :: "string \<Rightarrow> string list" where
  \<comment> \<open>\<open>s.split()\<close>: the maximal runs of non-whitespace characters\<close>
  "split s = split_from [] s"

fun join :: "string \<Rightarrow> string list \<Rightarrow> string" where
  \<comment> \<open>\<open>sep.join(ws)\<close>\<close>
  "join sep [] = []"
| "join sep [w] = w"
| "join sep (w # v # ws) = w @ sep @ join sep (v # ws)"

definition replace_chr :: "char \<Rightarrow> char \<Rightarrow> string \<Rightarrow> string" where
  \<comment> \<open>\<open>s.replace(a, b)\<close> for one-character strings \<open>a\<close> and \<open>b\<close>\<close>
  "replace_chr a b s = map (\<lambda>c. if c = a then b else c) s"

definition endswith :: "string \<Rightarrow> string \<Rightarrow> bool" where
  \<comment> \<open>\<open>s.endswith(e)\<close>\<close>
  "endswith s e = suffix e s"

fun str_in :: "string \<Rightarrow> string \<Rightarrow> bool" where
  \<comment> \<open>\<open>needle in hay\<close>: \<open>needle\<close> occurs in \<open>hay\<close> as a contiguous block\<close>
  "str_in n [] = (n = [])"
| "str_in n (c # cs) = (prefix n (c # cs) \<or> str_in n cs)"

section \<open>Filename normalisation\<close>

definition common_extensions :: "string list" where
  "common_extensions = [''.docx'', ''.doc'', ''.pdf'', ''.txt'', ''.rtf'', ''.odt'']"

fun strip_extension :: "string list \<Rightarrow> string \<Rightarrow> string" where
  \<comment> \<open>the loop over \<open>common_extensions\<close>: the first extension that ends the lowered
      name is cut off (\<open>filename[:-len(ext)]\<close>), and the loop stops\<close>
  "strip_extension [] filename = filename"
| "strip_extension (ext # exts) filename =
     (if endswith (lower filename) ext
      then take (length filename - length ext) filename
      else strip_extension exts filename)"

definition normalize_filename :: "string \<Rightarrow> string" where
  "normalize_filename filename0 =
     (let filename = strip filename0;
          name_without_ext = strip_extension common_extensions filename;
          normalized =
            replace_chr (CHR ''.'') (CHR '' '')
              (replace_chr (CHR ''-'') (CHR '' '')
                (replace_chr (CHR ''_'') (CHR '' '') name_without_ext))
      in join '' '' (split (lower normalized)))"


section \<open>Checklist verifier: data\<close>

datatype py_error = ValueError

record DocumentRequirement =
  document_name :: string
  is_mandatory :: bool
  req_description :: string
  req_adgm_reference :: string
  content_keywords :: "string list"

record ChecklistResult =
  process_type :: string
  documents_uploaded :: nat
  required_documents :: nat
  missing_documents :: "string list"
  completeness_percentage :: rat
  is_complete :: bool

text \<open>
  An uploaded document is a dictionary with string values; \<open>doc.get(key, default)\<close> is
  \<open>dict_get\<close>. Text extraction reads the file system, which is a parameter \<open>fs\<close> of the
  model: \<open>fs path\<close> is the text the document processor extracts from \<open>path\<close>, or \<open>None\<close>
  when it raises.
\<close>

type_synonym uploaded_doc = "string \<rightharpoonup> string"

definition dict_get :: "('k \<rightharpoonup> 'v) \<Rightarrow> 'k \<Rightarrow> 'v \<Rightarrow> 'v" where
  "dict_get d k dflt = (case d k of None \<Rightarrow> dflt | Some v \<Rightarrow> v)"

definition requirement ::
  "string \<Rightarrow> bool \<Rightarrow> string \<Rightarrow> string \<Rightarrow> string list \<Rightarrow> DocumentRequirement" where
  "requirement n m d a ks =
     \<lparr>document_name = n, is_mandatory = m, req_description = d,
      req_adgm_reference = a, content_keywords = ks\<rparr>"

definition board_resolution_keywords :: "string list" where
  "board_resolution_keywords =
     [''board resolution'', ''board meeting'', ''directors resolution'',
      ''board decision'', ''directors decision'']"

definition company_incorporation :: "DocumentRequirement list" where
  "company_incorporation =
    [requirement ''Articles of Association'' True
       ''Constitutional document defining company structure''
       ''ADGM Companies Regulations 2020, Art. 6''
       [''articles of association'', ''company articles'', ''aoa'', ''articles'',
        ''constitutional document'', ''company structure''],
     requirement ''Memorandum of Association'' True
       ''Document establishing company and its objects''
       ''ADGM Companies Regulations 2020, Art. 6''
       [''memorandum of association'', ''company memorandum'', ''memorandum'',
        ''company objects'', ''company establishment''],
     requirement ''Board Resolution'' True
       ''Resolution authorizing incorporation''
       ''ADGM Companies Regulations 2020, Art. 22''
       board_resolution_keywords,
     requirement ''Shareholder Resolution'' True
       ''Resolution approving incorporation''
       ''ADGM Companies Regulations 2020, Art. 15''
       [''shareholder resolution'', ''shareholders resolution'', ''member resolution'',
        ''shareholder decision'', ''member decision''],
     requirement ''Incorporation Application Form'' True
       ''Official application for company registration''
       ''ADGM Companies Regulations 2020, Art. 6''
       [''incorporation application'', ''company registration'', ''incorporation form'',
        ''registration application'', ''company formation''],
     requirement ''UBO Declaration Form'' True
       ''Ultimate Beneficial Owner declaration''
       ''ADGM Companies Regulations 2020, Art. 45''
       [''ubo declaration'', ''ultimate beneficial owner'', ''beneficial owner'',
        ''ubo form'', ''ownership declaration''],
     requirement ''Register of Members and Directors'' True
       ''Register of company members and directors''
       ''ADGM Companies Regulations 2020, Art. 22''
       [''register of members'', ''register of directors'', ''members register'',
        ''directors register'', ''company register''],
     requirement ''Change of Registered Address Notice'' False
       ''Notice of registered office address''
       ''ADGM Companies Regulations 2020, Art. 8''
       [''change of address'', ''registered address'', ''office address'',
        ''address change'', ''registered office'']]"

definition business_licensing :: "DocumentRequirement list" where
  "business_licensing =
    [requirement ''License Application Form'' True
       ''Application for business license''
       ''ADGM Commercial Regulations, Art. 3''
       [''license application'', ''business license'', ''licensing application'',
        ''permit application'', ''business permit''],
     requirement ''Business Plan'' True
       ''Detailed business plan and projections''
       ''ADGM Commercial Regulations, Art. 3''
       [''business plan'', ''business strategy'', ''business proposal'',
        ''business model'', ''business projections''],
     requirement ''Financial Statements'' True
       ''Audited financial statements''
       ''ADGM Commercial Regulations, Art. 8''
       [''financial statements'', ''financial report'', ''audited accounts'',
        ''financial accounts'', ''balance sheet''],
     requirement ''Compliance Policy'' True
       ''Compliance and risk management policy''
       ''ADGM Commercial Regulations, Art. 12''
       [''compliance policy'', ''risk management'', ''compliance procedures'',
        ''risk policy'', ''compliance framework''],
     requirement ''Board Resolution'' True
       ''Resolution approving license application''
       ''ADGM Commercial Regulations, Art. 3''
       board_resolution_keywords]"

definition employment_contracts :: "DocumentRequirement list" where
  "employment_contracts =
    [requirement ''Employment Contract'' True
       ''Standard employment agreement''
       ''ADGM Employment Regulations''
       [''employment contract'', ''employment agreement'', ''work contract'',
        ''employment terms'', ''work agreement''],
     requirement ''Job Description'' True
       ''Detailed job role and responsibilities''
       ''ADGM Employment Regulations''
       [''job description'', ''role description'', ''position description'',
        ''job responsibilities'', ''role requirements''],
     requirement ''Company Policies'' False
       ''Relevant company policies and procedures''
       ''ADGM Employment Regulations''
       [''company policies'', ''company procedures'', ''workplace policies'',
        ''employment policies'', ''company rules''],
     requirement ''Board Resolution'' True
       ''Resolution approving employment terms''
       ''ADGM Employment Regulations''
       board_resolution_keywords]"

definition commercial_agreements :: "DocumentRequirement list" where
  "commercial_agreements =
    [requirement ''Commercial Agreement'' True
       ''Main commercial contract''
       ''ADGM Commercial Regulations''
       [''commercial agreement'', ''commercial contract'', ''business agreement'',
        ''commercial terms'', ''business contract''],
     requirement ''Due Diligence Report'' True
       ''Due diligence findings''
       ''ADGM Commercial Regulations''
       [''due diligence'', ''due diligence report'', ''diligence findings'',
        ''investigation report'', ''background check''],
     requirement ''Board Resolution'' True
       ''Resolution approving agreement''
       ''ADGM Commercial Regulations''
       board_resolution_keywords,
     requirement ''Legal Opinion'' False
       ''Legal opinion on agreement terms''
       ''ADGM Commercial Regulations''
       [''legal opinion'', ''legal advice'', ''legal assessment'', ''legal review'',
        ''legal counsel'']]"

definition process_checklists :: "(string \<times> DocumentRequirement list) list" where
  \<comment> \<open>the dictionary \<open>self.process_checklists\<close>, in insertion order\<close>
  "process_checklists =
    [(''Company Incorporation'', company_incorporation),
     (''Business Licensing'', business_licensing),
     (''Employment Contracts'', employment_contracts),
     (''Commercial Agreements'', commercial_agreements)]"

section \<open>Rounding to two decimals\<close>

text \<open>
  Python's floats are modelled as rationals: the arithmetic of the two modules is exact
  here, and \<open>round(x, 2)\<close> is the nearest multiple of 1/100, a tie going to the even
  multiple, which is what Python does with the exact value of a float.
\<close>

definition round_half_even :: "rat \<Rightarrow> int" where
  "round_half_even x =
     (let f = \<lfloor>x\<rfloor>; d = x - of_int f
      in if d < 1 / 2 then f else if 1 / 2 < d then f + 1
         else if even f then f else f + 1)"

definition py_round2 :: "rat \<Rightarrow> rat" where
  \<comment> \<open>\<open>round(x, 2)\<close>: the nearest multiple of 0.01, a tie going to the even one\<close>
  "py_round2 x = of_int (round_half_even (x * 100)) / 100"

section \<open>Checklist verifier: operations\<close>

definition extract_docx_text :: "(string \<Rightarrow> string option) \<Rightarrow> string \<Rightarrow> string" where
  \<comment> \<open>the \<open>try\<close>/\<open>except\<close> around the document processor: a failure yields the empty text\<close>
  "extract_docx_text fs file_path = (case fs file_path of Some t \<Rightarrow> t | None \<Rightarrow> [])"

fun keyword_in :: "string list \<Rightarrow> string \<Rightarrow> bool" where
  \<comment> \<open>\<open>for keyword in keywords: if keyword.lower() in hay: return True\<close>\<close>
  "keyword_in [] hay = False"
| "keyword_in (keyword # keywords) hay =
     (if str_in (lower keyword) hay then True else keyword_in keywords hay)"

definition match_document_type :: "string \<Rightarrow> string \<Rightarrow> DocumentRequirement \<Rightarrow> bool" where
  "match_document_type text filename required_doc =
     (let text_lower = lower text
      in if keyword_in (content_keywords required_doc) text_lower then True
         else
           let normalized_filename = normalize_filename filename;
               normalized_required = normalize_filename (document_name required_doc)
           in if normalized_filename = normalized_required then True
              else if keyword_in (content_keywords required_doc) (lower filename) then True
              else False)"

definition initial_scores :: "(string \<times> int) list" where
  \<comment> \<open>the dictionary \<open>process_scores\<close>, in insertion order\<close>
  "initial_scores =
     [(''Company Incorporation'', 0), (''Business Licensing'', 0),
      (''Employment Contracts'', 0), (''Commercial Agreements'', 0)]"

definition add_score :: "string \<Rightarrow> int \<Rightarrow> (string \<times> int) list \<Rightarrow> (string \<times> int) list" where
  \<comment> \<open>\<open>process_scores[k] += n\<close> for a key that is present\<close>
  "add_score k n scores = map (\<lambda>(p, s). if p = k then (p, s + n) else (p, s)) scores"

definition score_doc_type :: "(string \<times> int) list \<Rightarrow> string \<Rightarrow> (string \<times> int) list" where
  \<comment> \<open>the body of the scoring loop for one document type\<close>
  "score_doc_type scores doc_type =
     (let scores1 =
            (if doc_type \<in> set [''Articles of Association'', ''Memorandum of Association'']
             then add_score ''Company Incorporation'' 3 scores
             else if doc_type \<in> set [''License Application Form'', ''Business Plan'']
             then add_score ''Business Licensing'' 3 scores
             else if doc_type \<in> set [''Employment Contract'', ''Job Description'']
             then add_score ''Employment Contracts'' 3 scores
             else if doc_type \<in> set [''Commercial Agreement'', ''Due Diligence Report'']
             then add_score ''Commercial Agreements'' 3 scores
             else scores)
      in if doc_type = ''Board Resolution''
         then map (\<lambda>(p, s). (p, s + 1)) scores1
         else scores1)"

fun max_from :: "string \<times> int \<Rightarrow> (string \<times> int) list \<Rightarrow> string \<times> int" where
  \<comment> \<open>the scan of \<open>max\<close>: a later item replaces the best one only when strictly greater\<close>
  "max_from best [] = best"
| "max_from best (item # items) =
     (if snd best < snd item then max_from item items else max_from best items)"

definition py_max_key :: "(string \<times> int) list \<Rightarrow> py_error + string" where
  \<comment> \<open>\<open>max(scores, key=scores.get)\<close>; \<open>max\<close> of an empty iterable raises \<open>ValueError\<close>\<close>
  "py_max_key scores =
     (case scores of [] \<Rightarrow> Inl ValueError | item # items \<Rightarrow> Inr (fst (max_from item items)))"

definition identify_process_type :: "uploaded_doc list \<Rightarrow> py_error + string" where
  "identify_process_type uploaded_documents =
     (let document_types = map (\<lambda>doc. dict_get doc ''document_type'' []) uploaded_documents
      in py_max_key (foldl score_doc_type initial_scores document_types))"

fun find_matching_document :: "string \<Rightarrow> string list \<Rightarrow> string option" where
  "find_matching_document uploaded_filename [] = None"
| "find_matching_document uploaded_filename (required_name # names) =
     (if normalize_filename uploaded_filename = normalize_filename required_name
      then Some required_name
      else find_matching_document uploaded_filename names)"

fun content_match :: "string \<Rightarrow> string \<Rightarrow> DocumentRequirement list \<Rightarrow> string set \<Rightarrow> string set" where
  \<comment> \<open>the inner loop over \<open>required_docs\<close>, left by \<open>break\<close> at the first requirement marked\<close>
  "content_match text filename [] found = found"
| "content_match text filename (required_doc # rest) found =
     (if is_mandatory required_doc \<and> document_name required_doc \<notin> found
      then (if match_document_type text filename required_doc
            then insert (document_name required_doc) found
            else content_match text filename rest found)
      else content_match text filename rest found)"

definition any_mandatory_match :: "string \<Rightarrow> string \<Rightarrow> DocumentRequirement list \<Rightarrow> bool" where
  \<comment> \<open>\<open>any(match_document_type(text, filename, doc) for doc in required_docs if doc.is_mandatory)\<close>\<close>
  "any_mandatory_match text filename required_docs =
     list_ex (match_document_type text filename) (filter is_mandatory required_docs)"

definition filename_fallback :: "string \<Rightarrow> string \<Rightarrow> DocumentRequirement list \<Rightarrow> string list \<Rightarrow> string set \<Rightarrow> string set" where
  \<comment> \<open>the block under "If no content match found, try filename fallback"\<close>
  "filename_fallback text filename required_docs mandatory_docs found =
     (if \<not> any_mandatory_match text filename required_docs
      then (case find_matching_document filename mandatory_docs of
              None \<Rightarrow> found
            | Some matching_doc \<Rightarrow>
                if matching_doc \<noteq> [] \<and> matching_doc \<notin> found
                then insert matching_doc found else found)
      else found)"

text \<open>
  The state of the loop over the uploaded documents is the set \<open>found_documents\<close> and the
  list of the paths handed to \<open>extract_docx_text\<close> so far.
\<close>

definition check_uploaded ::
  "(string \<Rightarrow> string option) \<Rightarrow> DocumentRequirement list \<Rightarrow> string list \<Rightarrow>
   string set \<times> string list \<Rightarrow> uploaded_doc \<Rightarrow> string set \<times> string list" where
  \<comment> \<open>the body of the loop for one uploaded document\<close>
  "check_uploaded fs required_docs mandatory_docs state uploaded_doc =
     (let uploaded_filename = dict_get uploaded_doc ''file_name'' [];
          file_path = dict_get uploaded_doc ''file_path'' []
      in if uploaded_filename = [] \<or> file_path = [] then state
         else
           let text_content = extract_docx_text fs file_path;
               found1 = content_match text_content uploaded_filename required_docs (fst state);
               found2 = filename_fallback text_content uploaded_filename
                          required_docs mandatory_docs found1
           in (found2, snd state @ [file_path]))"

definition matching_loop ::
  "(string \<Rightarrow> string option) \<Rightarrow> DocumentRequirement list \<Rightarrow> string list \<Rightarrow>
   uploaded_doc list \<Rightarrow> string set \<times> string list" where
  \<comment> \<open>\<open>found_documents = set()\<close> and the loop \<open>for uploaded_doc in uploaded_documents\<close>\<close>
  "matching_loop fs required_docs mandatory_docs uploaded_documents =
     foldl (check_uploaded fs required_docs mandatory_docs) ({}, []) uploaded_documents"

definition checklist_result ::
  "string \<Rightarrow> uploaded_doc list \<Rightarrow> string list \<Rightarrow> string set \<Rightarrow> ChecklistResult" where
  \<comment> \<open>the end of \<open>verify_checklist\<close>, from "Find missing mandatory documents" on\<close>
  "checklist_result identified uploaded_documents mandatory_docs found_documents =
     (let missing_docs = filter (\<lambda>doc. doc \<notin> found_documents) mandatory_docs;
          total_mandatory = length mandatory_docs;
          uploaded_mandatory = card found_documents;
          completeness =
            (if 0 < total_mandatory
             then (of_nat uploaded_mandatory / of_nat total_mandatory) * 100
             else 0)
      in \<lparr>process_type = identified,
          documents_uploaded = length uploaded_documents,
          required_documents = total_mandatory,
          missing_documents = missing_docs,
          completeness_percentage = py_round2 completeness,
          is_complete = (length missing_docs = 0)\<rparr>)"

definition verify_checklist ::
  "(string \<Rightarrow> string option) \<Rightarrow> uploaded_doc list \<Rightarrow> py_error + ChecklistResult" where
  "verify_checklist fs uploaded_documents =
     (if uploaded_documents = []
      then Inr \<lparr>process_type = ''Unknown'', documents_uploaded = 0, required_documents = 0,
                missing_documents = [], completeness_percentage = 0, is_complete = False\<rparr>
      else
        case identify_process_type uploaded_documents of
          Inl e \<Rightarrow> Inl e
        | Inr identified \<Rightarrow>
            (case map_of process_checklists identified of
               None \<Rightarrow>
                 Inr \<lparr>process_type = ''Unknown Process'',
                      documents_uploaded = length uploaded_documents, required_documents = 0,
                      missing_documents = [], completeness_percentage = 0,
                      is_complete = False\<rparr>
             | Some required_docs \<Rightarrow>
                 let mandatory_docs = map document_name (filter is_mandatory required_docs);
                     found_documents =
                       fst (matching_loop fs required_docs mandatory_docs uploaded_documents)
                 in Inr (checklist_result identified uploaded_documents mandatory_docs
                           found_documents)))"

subsection \<open>The variant without the filename fallback block\<close>

definition check_uploaded_no_fallback ::
  "(string \<Rightarrow> string option) \<Rightarrow> DocumentRequirement list \<Rightarrow>
   string set \<times> string list \<Rightarrow> uploaded_doc \<Rightarrow> string set \<times> string list" where
  \<comment> \<open>\<open>check_uploaded\<close> with the block \<open>filename_fallback\<close> deleted\<close>
  "check_uploaded_no_fallback fs required_docs state uploaded_doc =
     (let uploaded_filename = dict_get uploaded_doc ''file_name'' [];
          file_path = dict_get uploaded_doc ''file_path'' []
      in if uploaded_filename = [] \<or> file_path = [] then state
         else
           let text_content = extract_docx_text fs file_path;
               found1 = content_match text_content uploaded_filename required_docs (fst state)
           in (found1, snd state @ [file_path]))"

definition verify_checklist_no_fallback ::
  "(string \<Rightarrow> string option) \<Rightarrow> uploaded_doc list \<Rightarrow> py_error + ChecklistResult" where
  "verify_checklist_no_fallback fs uploaded_documents =
     (if uploaded_documents = []
      then Inr \<lparr>process_type = ''Unknown'', documents_uploaded = 0, required_documents = 0,
                missing_documents = [], completeness_percentage = 0, is_complete = False\<rparr>
      else
        case identify_process_type uploaded_documents of
          Inl e \<Rightarrow> Inl e
        | Inr identified \<Rightarrow>
            (case map_of process_checklists identified of
               None \<Rightarrow>
                 Inr \<lparr>process_type = ''Unknown Process'',
                      documents_uploaded = length uploaded_documents, required_documents = 0,
                      missing_documents = [], completeness_percentage = 0,
                      is_complete = False\<rparr>
             | Some required_docs \<Rightarrow>
                 let mandatory_docs = map document_name (filter is_mandatory required_docs);
                     found_documents =
                       fst (foldl (check_uploaded_no_fallback fs required_docs) ({}, [])
                              uploaded_documents)
                 in Inr (checklist_result identified uploaded_documents mandatory_docs
                           found_documents)))"

section \<open>Compliance checker: regular expressions\<close>

text \<open>
  Every pattern of the rule catalogue is a sequence of literal characters, of \<open>\<backslash>s+\<close> and
  of optional characters (\<open>c?\<close>), compiled with \<open>re.IGNORECASE\<close>.
\<close>

datatype re_item = Lit char | Spaces | Opt char

type_synonym regex = "re_item list"

definition lit :: "string \<Rightarrow> regex" where
  "lit s = map Lit s"

definition same_letter :: "char \<Rightarrow> char \<Rightarrow> bool" where
  \<comment> \<open>equality of characters under \<open>re.IGNORECASE\<close>\<close>
  "same_letter a c = (lower_chr a = lower_chr c)"

fun match_here :: "regex \<Rightarrow> string \<Rightarrow> nat option" where
  \<comment> \<open>the length of the match the backtracking matcher finds at the start of the
      string: \<open>c?\<close> and \<open>\<backslash>s+\<close> are greedy and give back on failure\<close>
  "match_here [] s = Some 0"
| "match_here (Lit a # r) [] = None"
| "match_here (Lit a # r) (c # cs) =
     (if same_letter a c then map_option Suc (match_here r cs) else None)"
| "match_here (Opt a # r) [] = match_here r []"
| "match_here (Opt a # r) (c # cs) =
     (if same_letter a c
      then (case match_here r cs of Some n \<Rightarrow> Some (Suc n) | None \<Rightarrow> match_here r (c # cs))
      else match_here r (c # cs))"
| "match_here (Spaces # r) [] = None"
| "match_here (Spaces # r) (c # cs) =
     (if is_space c
      then (case match_here (Spaces # r) cs of
              Some n \<Rightarrow> Some (Suc n)
            | None \<Rightarrow> map_option Suc (match_here r cs))
      else None)"

fun finditer :: "regex \<Rightarrow> string \<Rightarrow> string list" where
  \<comment> \<open>\<open>[m.group() for m in re.finditer(pattern, s, re.IGNORECASE)]\<close>: the leftmost
      matches, each search starting where the previous match ended\<close>
  "finditer r [] = (case match_here r [] of Some n \<Rightarrow> [[]] | None \<Rightarrow> [])"
| "finditer r (c # cs) =
     (case match_here r (c # cs) of
        None \<Rightarrow> finditer r cs
      | Some 0 \<Rightarrow> [] # finditer r cs
      | Some (Suc n) \<Rightarrow> take (Suc n) (c # cs) # finditer r (drop n cs))"

section \<open>Compliance checker: rule catalogue\<close>

definition adgm_jurisdiction_patterns :: "regex list" where
  "adgm_jurisdiction_patterns =
     [\<comment> \<open>\<open>ADGM\<backslash>s+Courts?\<close>\<close>
      lit ''ADGM'' @ [Spaces] @ lit ''Court'' @ [Opt CHR ''s''],
      \<comment> \<open>\<open>Abu\<backslash>s+Dhabi\<backslash>s+Global\<backslash>s+Market\<close>\<close>
      lit ''Abu'' @ [Spaces] @ lit ''Dhabi'' @ [Spaces] @ lit ''Global'' @ [Spaces] @ lit ''Market'',
      \<comment> \<open>\<open>ADGM\<backslash>s+Companies?\<backslash>s+Regulations?\<close>\<close>
      lit ''ADGM'' @ [Spaces] @ lit ''Companie'' @ [Opt CHR ''s'', Spaces]
        @ lit ''Regulation'' @ [Opt CHR ''s''],
      \<comment> \<open>\<open>ADGM\<backslash>s+Commercial\<backslash>s+Regulations?\<close>\<close>
      lit ''ADGM'' @ [Spaces] @ lit ''Commercial'' @ [Spaces] @ lit ''Regulation''
        @ [Opt CHR ''s'']]"

definition federal_court_patterns :: "regex list" where
  "federal_court_patterns =
     [\<comment> \<open>\<open>UAE\<backslash>s+Federal\<backslash>s+Courts?\<close>\<close>
      lit ''UAE'' @ [Spaces] @ lit ''Federal'' @ [Spaces] @ lit ''Court'' @ [Opt CHR ''s''],
      \<comment> \<open>\<open>Federal\<backslash>s+Courts?\<backslash>s+of\<backslash>s+UAE\<close>\<close>
      lit ''Federal'' @ [Spaces] @ lit ''Court'' @ [Opt CHR ''s'', Spaces] @ lit ''of''
        @ [Spaces] @ lit ''UAE'',
      \<comment> \<open>\<open>Dubai\<backslash>s+Courts?\<close>\<close>
      lit ''Dubai'' @ [Spaces] @ lit ''Court'' @ [Opt CHR ''s''],
      \<comment> \<open>\<open>Abu\<backslash>s+Dhabi\<backslash>s+Courts?\<close>\<close>
      lit ''Abu'' @ [Spaces] @ lit ''Dhabi'' @ [Spaces] @ lit ''Court'' @ [Opt CHR ''s'']]"

definition required_clauses :: "(string \<times> string list) list" where
  "required_clauses =
     [(''Articles of Association'',
         [''company name'', ''registered office'', ''objects clause'', ''share capital'',
          ''directors'', ''shareholders'', ''amendment procedures'']),
      (''Memorandum of Association'',
         [''company name'', ''registered office'', ''objects'', ''liability'',
          ''share capital'', ''subscribers'']),
      (''Board Resolution'',
         [''date'', ''directors present'', ''resolution text'', ''voting results'',
          ''signatures''])]"

definition ambiguous_patterns :: "(regex \<times> string) list" where
  \<open>ambiguous_patterns =
     [\<comment> \<open>\<open>may\<backslash>s+or\<backslash>s+may\<backslash>s+not\<close>\<close>
      (lit ''may'' @ [Spaces] @ lit ''or'' @ [Spaces] @ lit ''may'' @ [Spaces] @ lit ''not'',
       ''Ambiguous language - "may or may not"''),
      \<comment> \<open>\<open>at\<backslash>s+our\<backslash>s+discretion\<close>\<close>
      (lit ''at'' @ [Spaces] @ lit ''our'' @ [Spaces] @ lit ''discretion'',
       ''Vague discretionary language''),
      \<comment> \<open>\<open>reasonable\<backslash>s+efforts?\<close>\<close>
      (lit ''reasonable'' @ [Spaces] @ lit ''effort'' @ [Opt CHR ''s''],
       ''Subjective standard - "reasonable efforts"''),
      \<comment> \<open>\<open>best\<backslash>s+endeavours?\<close>\<close>
      (lit ''best'' @ [Spaces] @ lit ''endeavour'' @ [Opt CHR ''s''],
       ''Subjective standard - "best endeavours"''),
      \<comment> \<open>\<open>subject\<backslash>s+to\<backslash>s+availability\<close>\<close>
      (lit ''subject'' @ [Spaces] @ lit ''to'' @ [Spaces] @ lit ''availability'',
       ''Conditional language without clear terms'')]\<close>

section \<open>Compliance checker: operations\<close>

record ComplianceIssue =
  issue_type :: string
  severity :: string
  description :: string
  issue_section :: string
  clause :: string
  adgm_reference :: string
  suggestion :: string

text \<open>
  The \<open>structure\<close> dictionary is read at the keys \<open>title\<close> and \<open>sections\<close> only; a field
  is \<open>None\<close> when the key is absent. A section is a title with its paragraphs.
\<close>

record doc_structure =
  title :: "string option"
  sections :: "(string \<times> string list) list option"

record compliance_report =
  compliance_score :: rat
  total_issues :: nat
  high_severity_issues :: nat
  medium_severity_issues :: nat
  low_severity_issues :: nat
  issues :: "(string \<rightharpoonup> string) list"
  is_compliant :: bool

definition jurisdiction_error :: "string \<Rightarrow> ComplianceIssue" where
  "jurisdiction_error matched =
     \<lparr>issue_type = ''Jurisdiction Error'', severity = ''High'',
      description = ''Document references '' @ matched @ '' instead of ADGM Courts'',
      issue_section = ''Jurisdiction Clause'', clause = matched,
      adgm_reference = ''ADGM Companies Regulations 2020, Art. 6'',
      suggestion = ''Update jurisdiction clause to reference ADGM Courts exclusively''\<rparr>"

definition missing_adgm_reference :: ComplianceIssue where
  "missing_adgm_reference =
     \<lparr>issue_type = ''Missing ADGM Reference'', severity = ''High'',
      description = ''Document does not reference ADGM jurisdiction'',
      issue_section = ''Jurisdiction'', clause = ''No ADGM reference found'',
      adgm_reference = ''ADGM Companies Regulations 2020, Art. 6'',
      suggestion = ''Add explicit reference to ADGM jurisdiction and courts''\<rparr>"

definition check_jurisdiction_compliance :: "string \<Rightarrow> ComplianceIssue list" where
  "check_jurisdiction_compliance content =
     (let found = concat (map (\<lambda>pattern. map jurisdiction_error (finditer pattern content))
                            federal_court_patterns);
          adgm_references =
            sum_list (map (\<lambda>pattern. length (finditer pattern content))
                        adgm_jurisdiction_patterns)
      in if adgm_references = 0 then found @ [missing_adgm_reference] else found)"

definition missing_clause :: "string \<Rightarrow> ComplianceIssue" where
  "missing_clause c =
     \<lparr>issue_type = ''Missing Required Clause'', severity = ''High'',
      description = ''Required clause '' @ [CHR 0x27] @ c @ [CHR 0x27] @ '' is missing'',
      issue_section = ''Document Structure'', clause = c,
      adgm_reference = ''ADGM Companies Regulations 2020'',
      suggestion = ''Add '' @ c @ '' clause to comply with ADGM requirements''\<rparr>"

definition check_required_clauses :: "string \<Rightarrow> string \<Rightarrow> ComplianceIssue list" where
  "check_required_clauses document_type content =
     (case map_of required_clauses document_type of
        None \<Rightarrow> []
      | Some required \<Rightarrow>
          let content_lower = lower content
          in map missing_clause (filter (\<lambda>c. \<not> str_in c content_lower) required))"

definition ambiguous_language :: "string \<Rightarrow> string \<Rightarrow> ComplianceIssue" where
  "ambiguous_language descr matched =
     \<lparr>issue_type = ''Ambiguous Language'', severity = ''Medium'',
      description = descr, issue_section = ''Legal Language'', clause = matched,
      adgm_reference = ''ADGM Commercial Regulations'',
      suggestion = ''Replace with specific, binding language''\<rparr>"

definition check_legal_language :: "string \<Rightarrow> ComplianceIssue list" where
  "check_legal_language content =
     concat (map (\<lambda>(pattern, descr). map (ambiguous_language descr) (finditer pattern content))
               ambiguous_patterns)"

definition missing_title :: ComplianceIssue where
  "missing_title =
     \<lparr>issue_type = ''Missing Title'', severity = ''Medium'',
      description = ''Document lacks a clear title'',
      issue_section = ''Document Structure'', clause = ''No title found'',
      adgm_reference = ''ADGM Document Standards'',
      suggestion = ''Add a clear, descriptive document title''\<rparr>"

definition poor_structure :: ComplianceIssue where
  "poor_structure =
     \<lparr>issue_type = ''Poor Structure'', severity = ''Low'',
      description = ''Document lacks proper sectioning'',
      issue_section = ''Document Structure'', clause = ''Insufficient sections'',
      adgm_reference = ''ADGM Document Standards'',
      suggestion = ''Organize content into clear, numbered sections''\<rparr>"

definition check_formatting_compliance :: "doc_structure \<Rightarrow> ComplianceIssue list" where
  "check_formatting_compliance structure =
     (let no_title = (case title structure of None \<Rightarrow> True | Some t \<Rightarrow> t = []);
          n_sections = (case sections structure of None \<Rightarrow> 0 | Some ss \<Rightarrow> length ss)
      in (if no_title then [missing_title] else [])
         @ (if n_sections < 2 then [poor_structure] else []))"

definition score_of :: "nat \<Rightarrow> nat \<Rightarrow> nat \<Rightarrow> nat \<Rightarrow> rat" where
  \<comment> \<open>the block "Calculate compliance score", before rounding\<close>
  "score_of total_checks high_severity medium_severity low_severity =
     (if total_checks = 0 then 100
      else
        let weighted_score = high_severity * 3 + medium_severity * 2 + low_severity * 1;
            max_possible_score = total_checks * 3
        in max 0 (100 - (of_nat weighted_score / of_nat max_possible_score) * 100))"

definition issue_dict :: "ComplianceIssue \<Rightarrow> (string \<rightharpoonup> string)" where
  "issue_dict issue =
     [''type'' \<mapsto> issue_type issue, ''severity'' \<mapsto> severity issue,
      ''description'' \<mapsto> description issue, ''section'' \<mapsto> issue_section issue,
      ''clause'' \<mapsto> clause issue, ''adgm_reference'' \<mapsto> adgm_reference issue,
      ''suggestion'' \<mapsto> suggestion issue]"

definition all_issues_of :: "string \<Rightarrow> string \<Rightarrow> doc_structure \<Rightarrow> ComplianceIssue list" where
  \<comment> \<open>the list \<open>all_issues\<close> after the four \<open>extend\<close> calls\<close>
  "all_issues_of document_type content structure =
     check_jurisdiction_compliance content
     @ check_required_clauses document_type content
     @ check_legal_language content
     @ check_formatting_compliance structure"

definition check_compliance :: "string \<Rightarrow> string \<Rightarrow> doc_structure \<Rightarrow> compliance_report" where
  "check_compliance document_type content structure =
     (let all_issues = all_issues_of document_type content structure;
          total_checks = length all_issues;
          high_severity = length (filter (\<lambda>i. severity i = ''High'') all_issues);
          medium_severity = length (filter (\<lambda>i. severity i = ''Medium'') all_issues);
          low_severity = length (filter (\<lambda>i. severity i = ''Low'') all_issues);
          score = score_of total_checks high_severity medium_severity low_severity
      in \<lparr>compliance_score = py_round2 score,
          total_issues = total_checks,
          high_severity_issues = high_severity,
          medium_severity_issues = medium_severity,
          low_severity_issues = low_severity,
          issues = map issue_dict all_issues,
          is_compliant = (80 \<le> score)\<rparr>)"

definition contract_score :: "nat \<Rightarrow> nat \<Rightarrow> nat \<Rightarrow> rat" where
  \<comment> \<open>the scoring formula as the specification words it, from the counts by severity\<close>
  "contract_score high medium low =
     (let total = high + medium + low
      in if total = 0 then 100
         else py_round2
                (max 0 (100 - 100 * of_nat (3 * high + 2 * medium + 1 * low) / of_nat (3 * total))))"

section \<open>Auxiliary notions and example data\<close>

definition word_ok :: "string \<Rightarrow> bool" where
  \<comment> \<open>a word as \<open>split\<close> produces it: not empty, without whitespace\<close>
  "word_ok w = (w \<noteq> [] \<and> (\<forall>c \<in> set w. \<not> is_space c))"


definition empty_fs :: "string \<Rightarrow> string option" where
  \<comment> \<open>a file system on which every extraction fails\<close>
  "empty_fs path = None"

definition example_fs :: "string \<Rightarrow> string option" where
  "example_fs path =
     (if path = ''/u/a.docx'' then Some ''These Articles of Association of the company''
      else if path = ''/u/b.docx'' then Some ''Minutes of the board meeting''
      else None)"

definition example_uploads :: "uploaded_doc list" where
  "example_uploads =
     [[''file_name'' \<mapsto> ''a.docx'', ''file_path'' \<mapsto> ''/u/a.docx'',
       ''document_type'' \<mapsto> ''Articles of Association''],
      [''file_name'' \<mapsto> ''Board Resolution.DOCX'', ''document_type'' \<mapsto> ''Board Resolution''],
      [''file_name'' \<mapsto> ''b.docx'', ''file_path'' \<mapsto> ''/u/b.docx'']]"

definition example_structure :: doc_structure where
  "example_structure =
     \<lparr>title = Some ''ARTICLES'', sections = Some [(''PART 1'', []), (''PART 2'', [])]\<rparr>"

section \<open>Properties of the string functions\<close>

lemma lower_chr_idem: "lower_chr (lower_chr c) = lower_chr c"
  by (simp add: lower_chr_def of_char_of)

lemma of_char_lower_chr:
  "(of_char (lower_chr c) :: nat)
   = (if 65 \<le> (of_char c :: nat) \<and> (of_char c :: nat) \<le> 90 then of_char c + 32
      else of_char c)"
  by (simp add: lower_chr_def of_char_of)

lemma lower_chr_eq_nonletter:
  assumes "lower_chr c = d" and "(of_char d :: nat) < 97 \<or> 122 < (of_char d :: nat)"
  shows "c = d"
proof -
  have "(of_char (lower_chr c) :: nat) = of_char d" using assms(1) by simp
  then have "(of_char c :: nat) = of_char d"
    using assms(2) unfolding of_char_lower_chr by (auto split: if_splits)
  then show ?thesis by simp
qed

lemma split_from_append: "\<forall>c \<in> set v. \<not> is_space c \<Longrightarrow> split_from w (v @ r) = split_from (w @ v) r"
  by (induction v arbitrary: w) auto

lemma split_from_words: "\<forall>c \<in> set w. \<not> is_space c \<Longrightarrow> list_all word_ok (split_from w s)"
  by (induction s arbitrary: w) (auto simp: word_ok_def)

lemma split_from_set: "set (concat (split_from w s)) \<subseteq> set w \<union> set s"
proof (induction s arbitrary: w)
  case Nil
  show ?case by simp
next
  case (Cons a s)
  have 1: "set (concat (split_from [] s)) \<subseteq> set s" using Cons [of "[]"] by simp
  have 2: "set (concat (split_from (w @ [a]) s)) \<subseteq> set w \<union> {a} \<union> set s"
    using Cons [of "w @ [a]"] by simp
  show ?case
  proof (cases "is_space a")
    case True
    then show ?thesis using 1 by (cases "w = []") auto
  next
    case False
    then show ?thesis using 2 by auto
  qed
qed

lemma split_join: "list_all word_ok ws \<Longrightarrow> split_from [] (join '' '' ws) = ws"
proof (induction "'' ''" ws rule: join.induct)
  case 1
  show ?case by simp
next
  case (2 w)
  then show ?case using split_from_append [of w "[]" "[]"] by (simp add: word_ok_def)
next
  case (3 w v ws)
  have "split_from [] (w @ '' '' @ join '' '' (v # ws)) = split_from w ('' '' @ join '' '' (v # ws))"
    using 3 split_from_append [of w "[]"] by (simp add: word_ok_def)
  also have "\<dots> = w # split_from [] (join '' '' (v # ws))"
    using 3 by (simp add: word_ok_def is_space_def)
  finally show ?case using 3 by simp
qed

lemma set_join: "set (join '' '' ws) \<subseteq> set (concat ws) \<union> {CHR '' ''}"
  by (induction "'' ''" ws rule: join.induct) auto

lemma hd_join: "list_all word_ok ws \<Longrightarrow> ws \<noteq> [] \<Longrightarrow> join '' '' ws \<noteq> [] \<and> hd (join '' '' ws) = hd (hd ws)"
  by (induction "'' ''" ws rule: join.induct) (auto simp: word_ok_def)

lemma last_join: "list_all word_ok ws \<Longrightarrow> ws \<noteq> [] \<Longrightarrow> last (join '' '' ws) = last (last ws)"
proof (induction "'' ''" ws rule: join.induct)
  case (3 w v ws)
  then have "join '' '' (v # ws) \<noteq> []" using hd_join [of "v # ws"] by simp
  with 3 show ?case by simp
qed (auto simp: word_ok_def)

lemma strip_id: "s = [] \<or> (\<not> is_space (hd s) \<and> \<not> is_space (last s)) \<Longrightarrow> strip s = s"
proof (cases s)
  case Nil then show ?thesis by (simp add: strip_def)
next
  case (Cons a t)
  assume "s = [] \<or> (\<not> is_space (hd s) \<and> \<not> is_space (last s))"
  with Cons have h: "\<not> is_space (hd s)" and l: "\<not> is_space (last s)" by auto
  from h have 1: "dropWhile is_space s = s" by (simp add: dropWhile_eq_self_iff)
  have "hd (rev s) = last s" using Cons by (simp add: hd_rev)
  then have "dropWhile is_space (rev s) = rev s" using l by (simp add: dropWhile_eq_self_iff)
  with 1 show ?thesis by (simp add: strip_def)
qed

lemma strip_join: "list_all word_ok ws \<Longrightarrow> strip (join '' '' ws) = join '' '' ws"
proof (cases ws)
  case Nil then show ?thesis by (simp add: strip_def)
next
  case (Cons w vs)
  assume ok: "list_all word_ok ws"
  then have "word_ok (hd ws)" "word_ok (last ws)" using Cons by (auto simp: list_all_iff)
  then have "\<not> is_space (hd (hd ws))" "\<not> is_space (last (last ws))" by (auto simp: word_ok_def)
  then show ?thesis using hd_join [of ws] last_join [of ws] ok Cons by (intro strip_id) auto
qed

lemma strip_extension_id: "\<forall>e \<in> set exts. \<not> set e \<subseteq> set (lower f) \<Longrightarrow> strip_extension exts f = f"
  by (induction exts) (auto simp: endswith_def dest: set_mono_suffix)

lemma replace_chr_id: "a \<notin> set s \<Longrightarrow> replace_chr a b s = s"
  by (induction s) (auto simp: replace_chr_def)

lemma replace_chr_notin: "a \<noteq> b \<Longrightarrow> a \<notin> set (replace_chr a b s)"
  by (auto simp: replace_chr_def)

lemma replace_chr_notin2: "a \<notin> set s \<Longrightarrow> a \<noteq> b \<Longrightarrow> a \<notin> set (replace_chr c b s)"
  by (auto simp: replace_chr_def)

lemma normalize_filename_shape:
  obtains ws where "normalize_filename x = join '' '' ws" and "list_all word_ok ws"
    and "\<forall>c \<in> set (join '' '' ws). c \<notin> {CHR ''.'', CHR ''-'', CHR ''_''} \<and> lower_chr c = c"
proof -
  define n where "n = replace_chr (CHR ''.'') (CHR '' '')
              (replace_chr (CHR ''-'') (CHR '' '')
                (replace_chr (CHR ''_'') (CHR '' '') (strip_extension common_extensions (strip x))))"
  define ws where "ws = split (lower n)"
  have y: "normalize_filename x = join '' '' ws"
    by (simp add: normalize_filename_def ws_def n_def)
  have ok: "list_all word_ok ws"
    unfolding ws_def split_def by (rule split_from_words) simp
  have n_sep: "CHR ''.'' \<notin> set n \<and> CHR ''-'' \<notin> set n \<and> CHR ''_'' \<notin> set n"
    unfolding n_def by (simp add: replace_chr_notin replace_chr_notin2)
  have low: "c \<notin> {CHR ''.'', CHR ''-'', CHR ''_''} \<and> lower_chr c = c" if "c \<in> set (lower n)" for c
  proof -
    from that obtain d where d: "d \<in> set n" and c: "c = lower_chr d" by (auto simp: lower_def)
    have "c \<noteq> CHR ''.''" using lower_chr_eq_nonletter [of d "CHR ''.''"] c d n_sep by auto
    moreover have "c \<noteq> CHR ''-''" using lower_chr_eq_nonletter [of d "CHR ''-''"] c d n_sep by auto
    moreover have "c \<noteq> CHR ''_''" using lower_chr_eq_nonletter [of d "CHR ''_''"] c d n_sep by auto
    ultimately show ?thesis using c by (simp add: lower_chr_idem)
  qed
  have "set (concat ws) \<subseteq> set (lower n)"
    unfolding ws_def split_def using split_from_set [of "[]" "lower n"] by simp
  then have "set (join '' '' ws) \<subseteq> set (lower n) \<union> {CHR '' ''}"
    using set_join [of ws] by blast
  moreover have "lower_chr (CHR '' '') = CHR '' ''" by (simp add: lower_chr_def)
  ultimately have "\<forall>c \<in> set (join '' '' ws). c \<notin> {CHR ''.'', CHR ''-'', CHR ''_''} \<and> lower_chr c = c"
    using low by auto
  with y ok show ?thesis by (rule that)
qed

text \<open>
  Claim C6. Filename normalisation is idempotent, for every string; and the names
  \<open>Board_Resolution.DOCX\<close> and \<open>board-resolution.docx\<close> both normalise to
  \<open>board resolution\<close>.
\<close>

theorem normalize_filename_idempotent:
  "normalize_filename (normalize_filename x) = normalize_filename x
   \<and> normalize_filename ''Board_Resolution.DOCX'' = ''board resolution''
   \<and> normalize_filename ''board-resolution.docx'' = ''board resolution''"
proof -
  obtain ws where y: "normalize_filename x = join '' '' ws" and ok: "list_all word_ok ws"
    and ch: "\<forall>c \<in> set (join '' '' ws). c \<notin> {CHR ''.'', CHR ''-'', CHR ''_''} \<and> lower_chr c = c"
    by (rule normalize_filename_shape)
  let ?y = "join '' '' ws"
  have s: "strip ?y = ?y" using ok by (rule strip_join)
  have l: "lower ?y = ?y" unfolding lower_def using ch by (simp add: map_idI)
  have d: "CHR ''.'' \<notin> set ?y" "CHR ''-'' \<notin> set ?y" "CHR ''_'' \<notin> set ?y" using ch by auto
  have e: "strip_extension common_extensions ?y = ?y"
    by (rule strip_extension_id) (use d l in \<open>auto simp: common_extensions_def\<close>)
  have "normalize_filename ?y = join '' '' (split ?y)"
    by (simp add: normalize_filename_def s e l d replace_chr_id)
  also have "\<dots> = ?y" using ok by (simp add: split_def split_join)
  finally have 1: "normalize_filename (normalize_filename x) = normalize_filename x" by (simp add: y)
  have 2: "normalize_filename ''Board_Resolution.DOCX'' = ''board resolution''" by code_simp
  have 3: "normalize_filename ''board-resolution.docx'' = ''board resolution''" by code_simp
  from 1 2 3 show ?thesis by simp
qed

theorem normalize_filename_idempotent_witness:
  "normalize_filename (normalize_filename ''  My-Report.v2.PDF '')
     = normalize_filename ''  My-Report.v2.PDF ''
   \<and> normalize_filename ''Board_Resolution.DOCX'' = ''board resolution''
   \<and> normalize_filename ''board-resolution.docx'' = ''board resolution''"
  by (rule normalize_filename_idempotent)

section \<open>Properties of the compliance checker\<close>

lemma round_half_even_range: "round_half_even x = \<lfloor>x\<rfloor> \<or> round_half_even x = \<lfloor>x\<rfloor> + 1"
  by (simp add: round_half_even_def Let_def)

lemma round_half_even_mono:
  assumes "x \<le> y" shows "round_half_even x \<le> round_half_even y"
proof (cases "\<lfloor>x\<rfloor> = \<lfloor>y\<rfloor>")
  case True
  with assms show ?thesis by (auto simp: round_half_even_def Let_def)
next
  case False
  with assms have "\<lfloor>x\<rfloor> + 1 \<le> \<lfloor>y\<rfloor>" using floor_mono [OF assms] by linarith
  then show ?thesis
    using round_half_even_range [of x] round_half_even_range [of y] by linarith
qed

lemma round_half_even_of_int: "round_half_even (of_int k) = k"
  by (simp add: round_half_even_def)

lemma py_round2_mono: "x \<le> y \<Longrightarrow> py_round2 x \<le> py_round2 y"
  unfolding py_round2_def using round_half_even_mono [of "x * 100" "y * 100"]
  by (simp add: divide_right_mono)

lemma py_round2_0: "py_round2 0 = 0"
  using round_half_even_of_int [of 0] by (simp add: py_round2_def)

lemma py_round2_100: "py_round2 100 = 100"
  using round_half_even_of_int [of 10000] by (simp add: py_round2_def)

lemma py_round2_two_thirds: "py_round2 (200 / 3) = 6667 / 100"
  by code_simp

lemma score_of_bounds:
  assumes "0 < h + m + l"
  shows "0 \<le> score_of (h + m + l) h m l" and "score_of (h + m + l) h m l \<le> 200 / 3"
proof -
  define T :: rat where "T = of_nat (h + m + l)"
  define W :: rat where "W = of_nat (h * 3 + m * 2 + l * 1)"
  have T: "0 < T" unfolding T_def using assms by (simp only: of_nat_0_less_iff)
  have "h + m + l \<le> h * 3 + m * 2 + l * 1" by simp
  then have TW: "T \<le> W" unfolding T_def W_def by (simp only: of_nat_le_iff)
  define q where "q = W / (T * 3)"
  have "1 / 3 \<le> q" unfolding q_def using T TW by (simp add: field_simps)
  then have le: "100 - q * 100 \<le> 200 / 3" by linarith
  have eq: "score_of (h + m + l) h m l = max 0 (100 - q * 100)"
    using assms by (simp add: score_of_def Let_def T_def W_def q_def)
  show "score_of (h + m + l) h m l \<le> 200 / 3" unfolding eq using le by (simp add: max_def)
  show "0 \<le> score_of (h + m + l) h m l" unfolding eq by simp
qed

lemma score_of_eq_contract:
  "py_round2 (score_of (h + m + l) h m l) = contract_score h m l"
  by (simp add: score_of_def contract_score_def Let_def py_round2_100 mult.commute)

lemma count_by_severity:
  assumes "\<forall>i \<in> set xs. severity i = ''High'' \<or> severity i = ''Medium'' \<or> severity i = ''Low''"
  shows "length (filter (\<lambda>i. severity i = ''High'') xs)
         + length (filter (\<lambda>i. severity i = ''Medium'') xs)
         + length (filter (\<lambda>i. severity i = ''Low'') xs) = length xs"
  using assms by (induction xs) auto

lemma severity_jurisdiction: "i \<in> set (check_jurisdiction_compliance content) \<Longrightarrow> severity i = ''High''"
  by (auto simp: check_jurisdiction_compliance_def Let_def jurisdiction_error_def
      missing_adgm_reference_def split: if_splits)

lemma severity_clauses: "i \<in> set (check_required_clauses document_type content) \<Longrightarrow> severity i = ''High''"
  by (auto simp: check_required_clauses_def Let_def missing_clause_def split: option.splits)

lemma severity_language: "i \<in> set (check_legal_language content) \<Longrightarrow> severity i = ''Medium''"
  by (auto simp: check_legal_language_def ambiguous_language_def)

lemma severity_formatting:
  "i \<in> set (check_formatting_compliance structure) \<Longrightarrow> severity i = ''Medium'' \<or> severity i = ''Low''"
  by (auto simp: check_formatting_compliance_def Let_def missing_title_def poor_structure_def
      split: if_splits)

lemma severity_all_issues:
  "\<forall>i \<in> set (all_issues_of document_type content structure).
     severity i = ''High'' \<or> severity i = ''Medium'' \<or> severity i = ''Low''"
  using severity_jurisdiction severity_clauses severity_language severity_formatting
  by (fastforce simp: all_issues_of_def)





text \<open>
  Claim C3. For every document type, text and structure, the flag \<open>is_compliant\<close> of the
  report is true if and only if the score in the same report, which is the score rounded
  to two decimals, is at least 80. The flag is computed from the score before rounding;
  the two agree because a score below 100 is at most 200/3.
\<close>

theorem is_compliant_iff_rounded_score:
  "is_compliant (check_compliance document_type content structure)
   \<longleftrightarrow> 80 \<le> compliance_score (check_compliance document_type content structure)"
proof -
  define xs where "xs = all_issues_of document_type content structure"
  define h where "h = length (filter (\<lambda>i. severity i = ''High'') xs)"
  define m where "m = length (filter (\<lambda>i. severity i = ''Medium'') xs)"
  define l where "l = length (filter (\<lambda>i. severity i = ''Low'') xs)"
  have total: "length xs = h + m + l"
    unfolding h_def m_def l_def xs_def
    using count_by_severity [OF severity_all_issues] by simp
  have flag: "is_compliant (check_compliance document_type content structure)
              \<longleftrightarrow> 80 \<le> score_of (h + m + l) h m l"
    by (simp add: check_compliance_def Let_def xs_def [symmetric] h_def [symmetric]
        m_def [symmetric] l_def [symmetric] total)
  have score: "compliance_score (check_compliance document_type content structure)
               = py_round2 (score_of (h + m + l) h m l)"
    by (simp add: check_compliance_def Let_def xs_def [symmetric] h_def [symmetric]
        m_def [symmetric] l_def [symmetric] total)
  have "80 \<le> score_of (h + m + l) h m l \<longleftrightarrow> 80 \<le> py_round2 (score_of (h + m + l) h m l)"
  proof (cases "h + m + l = 0")
    case True
    then show ?thesis by (simp add: score_of_def py_round2_100)
  next
    case False
    then have pos: "0 < h + m + l" by simp
    have "py_round2 (score_of (h + m + l) h m l) \<le> py_round2 (200 / 3)"
      using score_of_bounds(2) [OF pos] by (rule py_round2_mono)
    then show ?thesis using score_of_bounds(2) [OF pos] by (simp add: py_round2_two_thirds)
  qed
  with flag score show ?thesis by simp
qed

theorem is_compliant_iff_rounded_score_witness:
  "is_compliant (check_compliance ''Board Resolution'' ''We use reasonable efforts'' example_structure)
   \<longleftrightarrow> 80 \<le> compliance_score
               (check_compliance ''Board Resolution'' ''We use reasonable efforts'' example_structure)"
  by (rule is_compliant_iff_rounded_score)

lemma score_of_mono_high:
  "score_of (Suc h + m + l) (Suc h) m l \<le> score_of (h + m + l) h m l"
proof (cases "h + m + l = 0")
  case True
  then show ?thesis by (simp add: score_of_def)
next
  case False
  define T :: rat where "T = of_nat (h + m + l)"
  define W :: rat where "W = of_nat (h * 3 + m * 2 + l * 1)"
  have "0 < h + m + l" using False by simp
  then have T: "0 < T" unfolding T_def by (simp only: of_nat_0_less_iff)
  have "h * 3 + m * 2 + l * 1 \<le> (h + m + l) * 3" by simp
  then have "W \<le> of_nat ((h + m + l) * 3)" unfolding W_def by (simp only: of_nat_le_iff)
  then have WT: "W \<le> T * 3" by (simp add: T_def)
  have q: "W / (T * 3) \<le> (W + 3) / ((T + 1) * 3)"
    using T WT by (simp add: field_simps)
  have old: "score_of (h + m + l) h m l = max 0 (100 - (W / (T * 3)) * 100)"
    using False by (simp add: score_of_def Let_def T_def W_def)
  have new: "score_of (Suc h + m + l) (Suc h) m l = max 0 (100 - ((W + 3) / ((T + 1) * 3)) * 100)"
    by (simp add: score_of_def Let_def T_def W_def algebra_simps)
  from q have "100 - ((W + 3) / ((T + 1) * 3)) * 100 \<le> 100 - (W / (T * 3)) * 100" by linarith
  then show ?thesis unfolding old new by (simp add: max_def)
qed

text \<open>
  Claim C4. For all counts \<open>h\<close>, \<open>m\<close>, \<open>l\<close>, the score computed from the counts
  \<open>(h + 1, m, l)\<close> is at most the score computed from \<open>(h, m, l)\<close>: one more issue of
  High severity never increases the score. This holds of the rounded score of the code
  and of the contract formula.
\<close>

theorem score_monotone_in_high:
  "py_round2 (score_of (Suc h + m + l) (Suc h) m l) \<le> py_round2 (score_of (h + m + l) h m l)
   \<and> contract_score (Suc h) m l \<le> contract_score h m l"
proof -
  have 1: "py_round2 (score_of (Suc h + m + l) (Suc h) m l)
           \<le> py_round2 (score_of (h + m + l) h m l)"
    using score_of_mono_high by (rule py_round2_mono)
  then have "contract_score (Suc h) m l \<le> contract_score h m l"
    by (simp only: score_of_eq_contract)
  with 1 show ?thesis by simp
qed

theorem score_monotone_in_high_witness:
  "py_round2 (score_of (Suc 0 + 2 + 1) (Suc 0) 2 1) \<le> py_round2 (score_of (0 + 2 + 1) 0 2 1)
   \<and> contract_score (Suc 0) 2 1 \<le> contract_score 0 2 1"
  by (rule score_monotone_in_high)

lemma uae_jurisdiction:
  "check_jurisdiction_compliance ''UAE Federal Courts''
   = [jurisdiction_error ''UAE Federal Courts'', missing_adgm_reference]"
  by code_simp

lemma uae_clauses:
  "check_required_clauses ''Articles of Association'' ''UAE Federal Courts''
   = map missing_clause
       [''company name'', ''registered office'', ''objects clause'', ''share capital'',
        ''directors'', ''shareholders'', ''amendment procedures'']"
  by code_simp

lemma uae_language: "check_legal_language ''UAE Federal Courts'' = []"
  by code_simp

text \<open>
  Claim C7. For the document type \<open>Articles of Association\<close>, the text
  \<open>UAE Federal Courts\<close> and a structure with a non-empty title and at least two sections,
  \<open>check_compliance\<close> reports exactly nine issues, all of High severity: one jurisdiction
  error, one missing reference to ADGM and seven missing required clauses; the score is 0
  and the document is not compliant.
\<close>

theorem uae_federal_courts_scenario:
  assumes "title structure = Some t" and "t \<noteq> []"
    and "sections structure = Some ss" and "2 \<le> length ss"
  shows "let r = check_compliance ''Articles of Association'' ''UAE Federal Courts'' structure
         in length (issues r) = 9
            \<and> map (\<lambda>d. d ''type'') (issues r)
                = [Some ''Jurisdiction Error'', Some ''Missing ADGM Reference'',
                   Some ''Missing Required Clause'', Some ''Missing Required Clause'',
                   Some ''Missing Required Clause'', Some ''Missing Required Clause'',
                   Some ''Missing Required Clause'', Some ''Missing Required Clause'',
                   Some ''Missing Required Clause'']
            \<and> map (\<lambda>d. d ''severity'') (issues r)
                = [Some ''High'', Some ''High'', Some ''High'', Some ''High'', Some ''High'',
                   Some ''High'', Some ''High'', Some ''High'', Some ''High'']
            \<and> total_issues r = 9 \<and> high_severity_issues r = 9
            \<and> medium_severity_issues r = 0 \<and> low_severity_issues r = 0
            \<and> compliance_score r = 0 \<and> \<not> is_compliant r"
proof -
  have fmt: "check_formatting_compliance structure = []"
    using assms by (simp add: check_formatting_compliance_def)
  have all: "all_issues_of ''Articles of Association'' ''UAE Federal Courts'' structure
             = jurisdiction_error ''UAE Federal Courts'' # missing_adgm_reference
               # map missing_clause
                   [''company name'', ''registered office'', ''objects clause'',
                    ''share capital'', ''directors'', ''shareholders'',
                    ''amendment procedures'']"
    by (simp add: all_issues_of_def uae_jurisdiction uae_clauses uae_language fmt)
  define xs where "xs = all_issues_of ''Articles of Association'' ''UAE Federal Courts'' structure"
  have n: "length xs = 9" by (simp add: xs_def all)
  have nh: "length (filter (\<lambda>i. severity i = ''High'') xs) = 9"
    by (simp add: xs_def all jurisdiction_error_def missing_adgm_reference_def missing_clause_def)
  have nm: "length (filter (\<lambda>i. severity i = ''Medium'') xs) = 0"
    by (simp add: xs_def all jurisdiction_error_def missing_adgm_reference_def missing_clause_def)
  have nl: "length (filter (\<lambda>i. severity i = ''Low'') xs) = 0"
    by (simp add: xs_def all jurisdiction_error_def missing_adgm_reference_def missing_clause_def)
  have ty: "map (\<lambda>d. d ''type'') (map issue_dict xs)
            = [Some ''Jurisdiction Error'', Some ''Missing ADGM Reference'',
               Some ''Missing Required Clause'', Some ''Missing Required Clause'',
               Some ''Missing Required Clause'', Some ''Missing Required Clause'',
               Some ''Missing Required Clause'', Some ''Missing Required Clause'',
               Some ''Missing Required Clause'']"
    by (simp add: xs_def all jurisdiction_error_def missing_adgm_reference_def
        missing_clause_def issue_dict_def)
  have sv: "map (\<lambda>d. d ''severity'') (map issue_dict xs)
            = [Some ''High'', Some ''High'', Some ''High'', Some ''High'', Some ''High'',
               Some ''High'', Some ''High'', Some ''High'', Some ''High'']"
    by (simp add: xs_def all jurisdiction_error_def missing_adgm_reference_def
        missing_clause_def issue_dict_def)
  have sc: "score_of 9 9 0 0 = 0" by (simp add: score_of_def)
  show ?thesis
    unfolding check_compliance_def Let_def xs_def [symmetric]
    by (simp add: n nh nm nl ty sv sc py_round2_0 del: map_map)
qed

theorem uae_federal_courts_scenario_witness:
  "title example_structure = Some ''ARTICLES'' \<and> ''ARTICLES'' \<noteq> []
   \<and> sections example_structure = Some [(''PART 1'', []), (''PART 2'', [])]
   \<and> 2 \<le> length [(''PART 1'', [] :: string list), (''PART 2'', [])]
   \<and> (let r = check_compliance ''Articles of Association'' ''UAE Federal Courts''
                 example_structure
       in length (issues r) = 9 \<and> total_issues r = 9 \<and> high_severity_issues r = 9
          \<and> medium_severity_issues r = 0 \<and> low_severity_issues r = 0
          \<and> compliance_score r = 0 \<and> \<not> is_compliant r)"
proof -
  have 1: "title example_structure = Some ''ARTICLES''" by (simp add: example_structure_def)
  have 2: "''ARTICLES'' \<noteq> []" by simp
  have 3: "sections example_structure = Some [(''PART 1'', []), (''PART 2'', [])]"
    by (simp add: example_structure_def)
  have 4: "2 \<le> length [(''PART 1'', [] :: string list), (''PART 2'', [])]" by simp
  show ?thesis
    using 1 2 3 4 uae_federal_courts_scenario [OF 1 2 3 4] by (simp add: Let_def)
qed

section \<open>Properties of the checklist verifier\<close>

lemma str_in_sublist: "str_in n h \<longleftrightarrow> sublist n h"
  by (induction h) (auto simp: sublist_Cons_right)

lemma keyword_in_iff: "keyword_in kws hay \<longleftrightarrow> (\<exists>kw \<in> set kws. sublist (lower kw) hay)"
  by (induction kws) (auto simp: str_in_sublist)

text \<open>
  Claim C5. For every text, filename and requirement, \<open>match_document_type\<close> returns true
  if and only if some content keyword, lowered, is a substring of the lowered text, or the
  normalised filename equals the normalised document name of the requirement, or some
  content keyword, lowered, is a substring of the lowered raw filename. The three tests are
  made in this order and the function returns at the first that holds; it has no effect
  besides its result.
\<close>

theorem match_document_type_iff:
  "match_document_type text filename required_doc \<longleftrightarrow>
     (\<exists>kw \<in> set (content_keywords required_doc). sublist (lower kw) (lower text))
     \<or> normalize_filename filename = normalize_filename (document_name required_doc)
     \<or> (\<exists>kw \<in> set (content_keywords required_doc). sublist (lower kw) (lower filename))"
  by (simp add: match_document_type_def Let_def keyword_in_iff)

theorem match_document_type_iff_witness:
  "''board meeting'' \<in> set (content_keywords (requirement ''Board Resolution'' True [] []
                                                board_resolution_keywords))
   \<and> sublist (lower ''board meeting'') (lower ''Minutes of the BOARD meeting'')
   \<and> match_document_type ''Minutes of the BOARD meeting'' ''scan_001.docx''
       (requirement ''Board Resolution'' True [] [] board_resolution_keywords)"
proof -
  have k: "''board meeting'' \<in> set (content_keywords (requirement ''Board Resolution'' True [] []
                                                board_resolution_keywords))"
    by (simp add: requirement_def board_resolution_keywords_def)
  have s: "sublist (lower ''board meeting'') (lower ''Minutes of the BOARD meeting'')"
    by code_simp
  show ?thesis
    using k s match_document_type_iff
      [of "''Minutes of the BOARD meeting''" "''scan_001.docx''"
          "requirement ''Board Resolution'' True [] [] board_resolution_keywords"]
    by blast
qed

lemma keys_add_score: "map fst (add_score k n scores) = map fst scores"
  by (induction scores) (auto simp: add_score_def)

lemma keys_score_doc_type: "map fst (score_doc_type scores doc_type) = map fst scores"
proof -
  have "map fst (map (\<lambda>(p, s). (p, s + 1)) xs) = map fst xs" for xs :: "(string \<times> int) list"
    by (induction xs) auto
  then show ?thesis by (simp add: score_doc_type_def Let_def keys_add_score)
qed

lemma keys_foldl_score: "map fst (foldl score_doc_type scores doc_types) = map fst scores"
  by (induction doc_types arbitrary: scores) (simp_all add: keys_score_doc_type)

lemma max_from_in: "max_from best items \<in> set (best # items)"
  by (induction items arbitrary: best) auto

lemma py_max_key_in:
  assumes "scores \<noteq> []"
  obtains p where "py_max_key scores = Inr p" and "p \<in> set (map fst scores)"
proof -
  from assms obtain item items where s: "scores = item # items" by (cases scores) auto
  have "fst (max_from item items) \<in> fst ` set (item # items)"
    using max_from_in [of item items] by (rule imageI)
  then show ?thesis using that s by (simp add: py_max_key_def)
qed

lemma identify_process_type_key:
  obtains p where "identify_process_type uploaded_documents = Inr p"
    and "p \<in> set (map fst process_checklists)"
proof -
  let ?scores = "foldl score_doc_type initial_scores
                   (map (\<lambda>doc. dict_get doc ''document_type'' []) uploaded_documents)"
  have keys: "map fst ?scores = map fst initial_scores" by (rule keys_foldl_score)
  then have "?scores \<noteq> []" by (auto simp: initial_scores_def)
  then obtain p where p: "py_max_key ?scores = Inr p" and "p \<in> set (map fst ?scores)"
    by (rule py_max_key_in)
  then have "p \<in> set (map fst process_checklists)"
    unfolding keys by (simp add: initial_scores_def process_checklists_def)
  with p show ?thesis using that by (simp add: identify_process_type_def Let_def)
qed

lemma catalog_lookup:
  assumes "p \<in> set (map fst process_checklists)"
  obtains required_docs where "map_of process_checklists p = Some required_docs"
  using assms by (cases "map_of process_checklists p") (auto simp: map_of_eq_None_iff)

text \<open>
  Claim C8. For every list of uploaded documents, and so for every non-empty one,
  \<open>identify_process_type\<close> returns one of the four keys of the process checklist
  catalogue. Hence \<open>verify_checklist\<close> never takes the branch of the unknown process: it
  returns a result, whose process type is not \<open>Unknown Process\<close>.
\<close>

theorem identify_process_type_known:
  "(\<exists>p. identify_process_type uploaded_documents = Inr p
        \<and> p \<in> {''Company Incorporation'', ''Business Licensing'', ''Employment Contracts'',
                ''Commercial Agreements''}
        \<and> map_of process_checklists p \<noteq> None)
   \<and> (\<exists>r. verify_checklist fs uploaded_documents = Inr r
            \<and> process_type r \<noteq> ''Unknown Process'')"
proof -
  obtain p where p: "identify_process_type uploaded_documents = Inr p"
    and k: "p \<in> set (map fst process_checklists)" by (rule identify_process_type_key)
  obtain required_docs where c: "map_of process_checklists p = Some required_docs"
    using k by (rule catalog_lookup)
  have names: "p \<in> {''Company Incorporation'', ''Business Licensing'', ''Employment Contracts'',
                ''Commercial Agreements''}"
    using k by (simp add: process_checklists_def)
  then have ne: "p \<noteq> ''Unknown Process''" by auto
  have "\<exists>r. verify_checklist fs uploaded_documents = Inr r \<and> process_type r \<noteq> ''Unknown Process''"
    using p c ne by (simp add: verify_checklist_def Let_def checklist_result_def)
  with p c names show ?thesis by simp
qed


theorem identify_process_type_known_witness:
  "(\<exists>p. identify_process_type example_uploads = Inr p
        \<and> p \<in> {''Company Incorporation'', ''Business Licensing'', ''Employment Contracts'',
                ''Commercial Agreements''}
        \<and> map_of process_checklists p \<noteq> None)
   \<and> (\<exists>r. verify_checklist example_fs example_uploads = Inr r
            \<and> process_type r \<noteq> ''Unknown Process'')"
  by (rule identify_process_type_known)

text \<open>
  Claim C2 says that \<open>is_complete\<close> is true if and only if \<open>missing_documents\<close> is empty,
  for every result of \<open>verify_checklist\<close>, the result for the empty input included. The
  result for the empty input has no missing document and is not complete.
\<close>

theorem verify_checklist_empty_counterexample:
  "verify_checklist empty_fs []
     = Inr \<lparr>process_type = ''Unknown'', documents_uploaded = 0, required_documents = 0,
            missing_documents = [], completeness_percentage = 0, is_complete = False\<rparr>
   \<and> \<not> (is_complete \<lparr>process_type = ''Unknown'', documents_uploaded = 0,
                       required_documents = 0, missing_documents = [],
                       completeness_percentage = 0, is_complete = False\<rparr>
          \<longleftrightarrow> missing_documents \<lparr>process_type = ''Unknown'', documents_uploaded = 0,
                       required_documents = 0, missing_documents = [],
                       completeness_percentage = 0, is_complete = False\<rparr> = [])"
  by (simp add: verify_checklist_def)

lemma verify_checklist_nonempty:
  assumes "uploaded_documents \<noteq> []"
  obtains p required_docs where "identify_process_type uploaded_documents = Inr p"
    and "map_of process_checklists p = Some required_docs"
    and "verify_checklist fs uploaded_documents
         = Inr (checklist_result p uploaded_documents
                  (map document_name (filter is_mandatory required_docs))
                  (fst (matching_loop fs required_docs
                          (map document_name (filter is_mandatory required_docs))
                          uploaded_documents)))"
proof -
  obtain p where p: "identify_process_type uploaded_documents = Inr p"
    and k: "p \<in> set (map fst process_checklists)" by (rule identify_process_type_key)
  obtain required_docs where c: "map_of process_checklists p = Some required_docs"
    using k by (rule catalog_lookup)
  show ?thesis using that [OF p c] assms p c by (simp add: verify_checklist_def Let_def)
qed

text \<open>
  Claim C2, amended. For every non-empty list of uploaded documents, \<open>verify_checklist\<close>
  returns a result whose field \<open>is_complete\<close> is true if and only if its field
  \<open>missing_documents\<close> is empty.
\<close>

theorem is_complete_iff_missing_empty:
  assumes "uploaded_documents \<noteq> []"
  shows "\<exists>r. verify_checklist fs uploaded_documents = Inr r
             \<and> (is_complete r \<longleftrightarrow> missing_documents r = [])"
proof -
  obtain p required_docs where
    "verify_checklist fs uploaded_documents
         = Inr (checklist_result p uploaded_documents
                  (map document_name (filter is_mandatory required_docs))
                  (fst (matching_loop fs required_docs
                          (map document_name (filter is_mandatory required_docs))
                          uploaded_documents)))"
    using assms by (rule verify_checklist_nonempty)
  then show ?thesis by (simp add: checklist_result_def Let_def)
qed

theorem is_complete_iff_missing_empty_witness:
  "example_uploads \<noteq> []
   \<and> (\<exists>r. verify_checklist example_fs example_uploads = Inr r
            \<and> (is_complete r \<longleftrightarrow> missing_documents r = []))"
proof -
  have ne: "example_uploads \<noteq> []" by (simp add: example_uploads_def)
  show ?thesis using ne is_complete_iff_missing_empty [OF ne] by simp
qed

lemma find_matching_document_Some:
  "find_matching_document filename names = Some n
   \<Longrightarrow> n \<in> set names \<and> normalize_filename filename = normalize_filename n"
  by (induction names) (auto split: if_splits)

lemma mandatory_name_matches:
  assumes "find_matching_document filename (map document_name (filter is_mandatory required_docs))
           = Some n"
  shows "any_mandatory_match text filename required_docs"
proof -
  from find_matching_document_Some [OF assms]
  obtain r where r: "r \<in> set required_docs" "is_mandatory r" "document_name r = n"
    and eq: "normalize_filename filename = normalize_filename n" by auto
  have "match_document_type text filename r"
    using eq r(3) by (simp add: match_document_type_def Let_def)
  with r show ?thesis by (auto simp: any_mandatory_match_def list_ex_iff)
qed

lemma filename_fallback_skip:
  "filename_fallback text filename required_docs
     (map document_name (filter is_mandatory required_docs)) found = found"
  using mandatory_name_matches [of filename required_docs _ "text"]
  by (auto simp: filename_fallback_def split: option.splits)

lemma check_uploaded_no_fallback_eq:
  "check_uploaded fs required_docs (map document_name (filter is_mandatory required_docs))
   = check_uploaded_no_fallback fs required_docs"
  by (intro ext) (simp add: check_uploaded_def check_uploaded_no_fallback_def Let_def
      filename_fallback_skip)

text \<open>
  Claim C9. The filename fallback block of \<open>verify_checklist\<close> never marks a requirement:
  whenever \<open>find_matching_document\<close> returns a name among the mandatory document names,
  \<open>match_document_type\<close> holds of a mandatory requirement, so the guard of the block is
  false; the block leaves \<open>found_documents\<close> as it is, and \<open>verify_checklist\<close> returns, for
  every input, the result of the variant without the block.
\<close>

theorem filename_fallback_never_marks:
  "verify_checklist fs uploaded_documents = verify_checklist_no_fallback fs uploaded_documents
   \<and> filename_fallback text filename required_docs
        (map document_name (filter is_mandatory required_docs)) found = found
   \<and> (find_matching_document filename (map document_name (filter is_mandatory required_docs))
        \<noteq> None \<longrightarrow> any_mandatory_match text filename required_docs)"
proof -
  have 1: "verify_checklist fs uploaded_documents
           = verify_checklist_no_fallback fs uploaded_documents"
    by (simp add: verify_checklist_def verify_checklist_no_fallback_def matching_loop_def
        check_uploaded_no_fallback_eq Let_def split: sum.splits option.splits)
  have 3: "find_matching_document filename (map document_name (filter is_mandatory required_docs))
        \<noteq> None \<longrightarrow> any_mandatory_match text filename required_docs"
    using mandatory_name_matches [of filename required_docs _ "text"] by auto
  from 1 3 show ?thesis by (simp add: filename_fallback_skip)
qed

theorem filename_fallback_never_marks_witness:
  "verify_checklist example_fs example_uploads
     = verify_checklist_no_fallback example_fs example_uploads
   \<and> filename_fallback [] ''Board_Resolution.DOCX'' company_incorporation
        (map document_name (filter is_mandatory company_incorporation)) {} = {}
   \<and> find_matching_document ''Board_Resolution.DOCX''
        (map document_name (filter is_mandatory company_incorporation))
       = Some ''Board Resolution''
   \<and> any_mandatory_match [] ''Board_Resolution.DOCX'' company_incorporation"
proof -
  have f: "find_matching_document ''Board_Resolution.DOCX''
             (map document_name (filter is_mandatory company_incorporation))
           = Some ''Board Resolution''"
    by code_simp
  show ?thesis
    using f filename_fallback_never_marks
      [where fs = example_fs and uploaded_documents = example_uploads
         and filename = "''Board_Resolution.DOCX''" and required_docs = company_incorporation
         and found = "{}" and ?text = "[]"]
    by simp
qed







end
